theory Spec2Isabelle
  imports Main "HOL-Library.Sublist"
begin

section \<open>Notebook cell editor options (cellEditorOptions.ts)\<close>

text \<open>
  A shallow embedding of \<^verbatim>\<open>vs/workbench/contrib/notebook/browser/view/renderers/cellEditorOptions.ts\<close>:
  the class \<^verbatim>\<open>CellEditorOptions\<close>, which keeps a merged editor-options object for one notebook
  cell editor, and the two registered actions \<^verbatim>\<open>notebook.toggleLineNumbers\<close> and
  \<^verbatim>\<open>notebook.cell.toggleLineNumbers\<close>.
\<close>

subsection \<open>JavaScript values and objects\<close>

text \<open>
  Option values are plain data. An object is the list of its own enumerable properties in
  insertion order; a property is read through \<open>map_of\<close>, so a key is bound at most once as far
  as any read can tell. Numbers are only carried around by this file, never computed with.
\<close>

datatype jsval =
    JUndefined
  | JNull
  | JBool bool
  | JNum int
  | JStr string
  | JObj "(string \<times> jsval) list"

type_synonym obj = "(string \<times> jsval) list"

text \<open>\<^verbatim>\<open>o[key]\<close>: the value of the property, \<^verbatim>\<open>undefined\<close> when there is none.\<close>

definition getProp :: "obj \<Rightarrow> string \<Rightarrow> jsval" where
  "getProp ob key = (case map_of ob key of None \<Rightarrow> JUndefined | Some v \<Rightarrow> v)"

text \<open>
  Defining an own data property (what an object literal and a spread element do for each
  key): an existing property keeps its place and takes the new value, a new property is
  added at the end.
\<close>

fun defineProp :: "string \<Rightarrow> jsval \<Rightarrow> obj \<Rightarrow> obj" where
  "defineProp key v [] = [(key, v)]"
| "defineProp key v (p # ps) = (if fst p = key then (key, v) # ps else p # defineProp key v ps)"

text \<open>
  The assignment \<^verbatim>\<open>o[key] = v\<close> on an object created by a literal, whose prototype is
  \<^verbatim>\<open>Object.prototype\<close>. An own property is overwritten. Without one the prototype is asked,
  and the one setter it has is the accessor \<^verbatim>\<open>__proto__\<close>: assigning to that key defines no own
  property. Every other key is defined on the object.
\<close>

definition setProp :: "string \<Rightarrow> jsval \<Rightarrow> obj \<Rightarrow> obj" where
  "setProp key v ob =
     (if key = ''__proto__'' \<and> map_of ob key = None then ob else defineProp key v ob)"

text \<open>The keys a \<^verbatim>\<open>for (key in o)\<close> loop or a spread visits: each own key once.\<close>

definition ownKeys :: "obj \<Rightarrow> string list" where
  "ownKeys ob = remdups (map fst ob)"

text \<open>
  One spread element \<^verbatim>\<open>...src\<close> of an object literal whose properties so far are \<open>target\<close>:
  every own key of \<open>src\<close> is read from \<open>src\<close> and defined on the target, in order.
\<close>

definition spread :: "obj \<Rightarrow> obj \<Rightarrow> obj" where
  "spread target src =
     fold (\<lambda>key acc. defineProp key (getProp src key) acc) (ownKeys src) target"

text \<open>
  \<^verbatim>\<open>deepClone<T>(obj: T): T\<close> is imported from \<^verbatim>\<open>vs/base/common/objects\<close>; its body is not
  part of this file. The functions below that call it take it as their first argument, at the
  type of its one use here, from an editor options object to an editor options object, and
  nothing more is assumed of it.
\<close>

subsection \<open>Strings\<close>

text \<open>
  \<^verbatim>\<open>s.indexOf(p)\<close>: the first position at which \<open>p\<close> occurs in \<open>s\<close>, \<open>-1\<close> when it does not
  occur. \<open>indexOfFrom s p i\<close> searches the rest \<open>s\<close> of the string, which starts at position \<open>i\<close>.
\<close>

fun indexOfFrom :: "string \<Rightarrow> string \<Rightarrow> nat \<Rightarrow> int" where
  "indexOfFrom [] p i = (if p = [] then int i else - 1)"
| "indexOfFrom (c # s) p i = (if prefix p (c # s) then int i else indexOfFrom s p (Suc i))"

definition indexOf :: "string \<Rightarrow> string \<Rightarrow> int" where
  "indexOf s p = indexOfFrom s p 0"

text \<open>\<^verbatim>\<open>s.substr(n)\<close> with one argument: the string from position \<open>n\<close> to its end.\<close>

definition substr :: "string \<Rightarrow> nat \<Rightarrow> string" where
  "substr s n = drop n s"

subsection \<open>Collaborators\<close>

text \<open>The tri-state \<^verbatim>\<open>'on' | 'off' | 'inherit'\<close>.\<close>

datatype LineNumberMode = On | Off | Inherit

fun modeString :: "LineNumberMode \<Rightarrow> string" where
  "modeString On = ''on''"
| "modeString Off = ''off''"
| "modeString Inherit = ''inherit''"

text \<open>
  The configuration service. \<open>settings\<close> answers \<^verbatim>\<open>getValue(key)\<close> (\<^verbatim>\<open>undefined\<close> for a key
  without value; the stored value is whatever the user's settings hold). \<open>editorSection\<close>
  answers \<^verbatim>\<open>getValue<IEditorOptions>('editor', { overrideIdentifier: language })\<close>, the
  editor options object for a language.
\<close>

record IConfigurationService =
  settings :: "string \<Rightarrow> jsval"
  editorSection :: "string \<Rightarrow> obj"

definition getValue :: "IConfigurationService \<Rightarrow> string \<Rightarrow> jsval" where
  "getValue cs key = settings cs key"

definition getValueOverride :: "IConfigurationService \<Rightarrow> string \<Rightarrow> obj" where
  "getValueOverride cs overrideIdentifier = editorSection cs overrideIdentifier"

definition updateValue :: "IConfigurationService \<Rightarrow> string \<Rightarrow> jsval \<Rightarrow> IConfigurationService" where
  "updateValue cs key v = cs\<lparr>settings := (settings cs)(key := v)\<rparr>"

text \<open>
  The notebook options: the layout configuration with its optional
  \<^verbatim>\<open>editorOptionsCustomizations\<close> (\<open>None\<close> for \<^verbatim>\<open>undefined\<close> or \<^verbatim>\<open>null\<close>), and the padding
  callback \<^verbatim>\<open>computeEditorPadding(internalMetadata)\<close>.
\<close>

record NotebookLayoutConfiguration =
  editorOptionsCustomizations :: "obj option"

record NotebookOptions =
  layoutConfiguration :: NotebookLayoutConfiguration
  computeEditorPadding :: "obj \<Rightarrow> jsval"

definition getLayoutConfiguration :: "NotebookOptions \<Rightarrow> NotebookLayoutConfiguration" where
  "getLayoutConfiguration no = layoutConfiguration no"

text \<open>
  The notebook editor: its view model when it has one (of which only
  \<^verbatim>\<open>options.isReadOnly\<close> is read), \<^verbatim>\<open>hasModel()\<close> and \<^verbatim>\<open>getActiveCell()\<close>. A cell view model is
  named by its handle.
\<close>

record NotebookViewModelOptions =
  isReadOnly :: bool

record NotebookViewModel =
  options :: NotebookViewModelOptions

record INotebookEditor =
  viewModel :: "NotebookViewModel option"
  hasModel :: bool
  getActiveCell :: "nat option"

subsection \<open>CellEditorOptions\<close>

definition fixedEditorOptions :: obj where
  "fixedEditorOptions =
    [(''scrollBeyondLastLine'', JBool False),
     (''scrollbar'', JObj
        [(''verticalScrollbarSize'', JNum 14),
         (''horizontal'', JStr ''auto''),
         (''useShadows'', JBool True),
         (''verticalHasArrows'', JBool False),
         (''horizontalHasArrows'', JBool False),
         (''alwaysConsumeMouseWheel'', JBool False)]),
     (''renderLineHighlightOnlyWhenFocus'', JBool True),
     (''overviewRulerLanes'', JNum 0),
     (''selectOnLineNumbers'', JBool False),
     (''lineNumbers'', JStr ''off''),
     (''lineDecorationsWidth'', JNum 0),
     (''folding'', JBool False),
     (''fixedOverflowWidgets'', JBool True),
     (''minimap'', JObj [(''enabled'', JBool False)]),
     (''renderValidationDecorations'', JStr ''on''),
     (''lineNumbersMinChars'', JNum 3)]"

text \<open>The constructor's parameters, which the instance keeps as read-only members.\<close>

record CellEditorOptionsDeps =
  notebookEditor :: INotebookEditor
  notebookOptions :: NotebookOptions
  configurationService :: IConfigurationService
  language :: string

text \<open>
  The mutable members: \<^verbatim>\<open>_value\<close>, \<^verbatim>\<open>_lineNumbers\<close>, and the emitter \<^verbatim>\<open>_onDidChange\<close>, of
  which the number of \<^verbatim>\<open>fire()\<close> calls so far is kept.
\<close>

record CellEditorOptions =
  p_value :: obj
  p_lineNumbers :: LineNumberMode
  onDidChange_fired :: nat

text \<open>The body of the \<^verbatim>\<open>for (let key in editorOptionsOverrideRaw)\<close> loop.\<close>

definition overrideStep :: "obj \<Rightarrow> string \<Rightarrow> obj \<Rightarrow> obj" where
  "overrideStep editorOptionsOverrideRaw key editorOptionsOverride =
    (if indexOf key ''editor.'' = 0
     then setProp (substr key 7) (getProp editorOptionsOverrideRaw key) editorOptionsOverride
     else editorOptionsOverride)"

text \<open>\<^verbatim>\<open>layoutConfig.editorOptionsCustomizations ?? {}\<close>.\<close>

definition overrideRaw :: "NotebookLayoutConfiguration \<Rightarrow> obj" where
  "overrideRaw layoutConfig =
    (case editorOptionsCustomizations layoutConfig of None \<Rightarrow> [] | Some raw \<Rightarrow> raw)"

text \<open>The loop, from the empty object \<^verbatim>\<open>editorOptionsOverride = {}\<close>.\<close>

definition computeOverride :: "NotebookLayoutConfiguration \<Rightarrow> obj" where
  "computeOverride layoutConfig =
    (let editorOptionsOverrideRaw = overrideRaw layoutConfig
     in fold (overrideStep editorOptionsOverrideRaw) (ownKeys editorOptionsOverrideRaw) [])"

definition paddingDefault :: jsval where
  "paddingDefault = JObj [(''top'', JNum 12), (''bottom'', JNum 12)]"

definition computeEditorOptions :: "(obj \<Rightarrow> obj) \<Rightarrow> CellEditorOptionsDeps \<Rightarrow> obj" where
  "computeEditorOptions deepClone d =
    (let renderLineNumbers =
           (getValue (configurationService d) ''notebook.lineNumbers'' = JStr ''on'');
         lineNumbers = (if renderLineNumbers then ''on'' else ''off'');
         editorOptions =
           deepClone (getValueOverride (configurationService d) (language d));
         layoutConfig = getLayoutConfiguration (notebookOptions d);
         editorOptionsOverride = computeOverride layoutConfig;
         computed =
           defineProp ''readOnly''
             (JBool (case viewModel (notebookEditor d) of
                       None \<Rightarrow> False
                     | Some vm \<Rightarrow> isReadOnly (options vm)))
             (spread
               (spread
                 (spread
                   (spread
                     (spread [] editorOptions)
                     fixedEditorOptions)
                   [(''lineNumbers'', JStr lineNumbers),
                    (''folding'', JBool (lineNumbers = ''on''))])
                 editorOptionsOverride)
               [(''padding'', paddingDefault)])
     in computed)"

text \<open>The constructor, as far as the members above go: \<^verbatim>\<open>this._value = this._computeEditorOptions()\<close>.\<close>

definition newCellEditorOptions ::
  "(obj \<Rightarrow> obj) \<Rightarrow> CellEditorOptionsDeps \<Rightarrow> CellEditorOptions" where
  "newCellEditorOptions deepClone d =
    \<lparr>p_value = computeEditorOptions deepClone d, p_lineNumbers = Inherit, onDidChange_fired = 0\<rparr>"

definition recomputeOptions ::
  "(obj \<Rightarrow> obj) \<Rightarrow> CellEditorOptionsDeps \<Rightarrow> CellEditorOptions \<Rightarrow> CellEditorOptions" where
  "recomputeOptions deepClone d this =
    this\<lparr>p_value := computeEditorOptions deepClone d,
         onDidChange_fired := Suc (onDidChange_fired this)\<rparr>"

text \<open>\<^verbatim>\<open>getValue(internalMetadata?)\<close>: the object returned, and the instance after the call.\<close>

definition getValue_options ::
  "CellEditorOptionsDeps \<Rightarrow> CellEditorOptions \<Rightarrow> obj option \<Rightarrow> obj \<times> CellEditorOptions" where
  "getValue_options d this internalMetadata =
    (spread (spread [] (p_value this))
       [(''padding'',
         (case internalMetadata of
            Some m \<Rightarrow> computeEditorPadding (notebookOptions d) m
          | None \<Rightarrow> paddingDefault))],
     this)"

definition setLineNumbers ::
  "CellEditorOptionsDeps \<Rightarrow> CellEditorOptions \<Rightarrow> LineNumberMode \<Rightarrow> CellEditorOptions" where
  "setLineNumbers d this lineNumbers =
    (let this1 = this\<lparr>p_lineNumbers := lineNumbers\<rparr>;
         this2 =
           (if p_lineNumbers this1 = Inherit
            then
              (let renderLiNumbers =
                     (getValue (configurationService d) ''notebook.lineNumbers'' = JStr ''on'');
                   lineNumbers' = (if renderLiNumbers then ''on'' else ''off'');
                   v1 = setProp ''lineNumbers'' (JStr lineNumbers') (p_value this1);
                   v2 = setProp ''folding'' (JBool (lineNumbers' = ''on'')) v1
               in this1\<lparr>p_value := v2\<rparr>)
            else
              (let v1 = setProp ''lineNumbers'' (JStr (modeString lineNumbers)) (p_value this1);
                   v2 = setProp ''folding'' (JBool (lineNumbers = On)) v1
               in this1\<lparr>p_value := v2\<rparr>))
     in this2\<lparr>onDidChange_fired := Suc (onDidChange_fired this2)\<rparr>)"

subsection \<open>The toggle actions\<close>

text \<open>
  What the two actions reach through their accessor: the configuration service, the notebook
  editor of the active editor pane (\<open>None\<close> when \<^verbatim>\<open>getNotebookEditorFromEditorPane\<close> finds none),
  and the \<^verbatim>\<open>lineNumbers\<close> property of every cell view model, by handle.
\<close>

record Workbench =
  configuration :: IConfigurationService
  activeNotebookEditor :: "INotebookEditor option"
  cellLineNumbers :: "nat \<Rightarrow> LineNumberMode"

text \<open>\<^verbatim>\<open>ToggleLineNumberAction.run\<close>.\<close>

definition toggleLineNumbers_run :: "Workbench \<Rightarrow> Workbench" where
  "toggleLineNumbers_run w =
    (let renderLiNumbers = (getValue (configuration w) ''notebook.lineNumbers'' = JStr ''on'')
     in if renderLiNumbers
        then w\<lparr>configuration := updateValue (configuration w) ''notebook.lineNumbers'' (JStr ''off'')\<rparr>
        else w\<lparr>configuration := updateValue (configuration w) ''notebook.lineNumbers'' (JStr ''on'')\<rparr>)"

text \<open>The part of \<^verbatim>\<open>ToggleActiveLineNumberAction.run\<close> from \<^verbatim>\<open>if (cell)\<close> on.\<close>

definition toggleCell :: "Workbench \<Rightarrow> nat option \<Rightarrow> Workbench" where
  "toggleCell w cell =
    (case cell of
       None \<Rightarrow> w
     | Some c \<Rightarrow>
        (let renderLineNumbers =
               (getValue (configuration w) ''notebook.lineNumbers'' = JStr ''on'');
             cellLineNumbers' = cellLineNumbers w c;
             currentLineNumberIsOn =
               (cellLineNumbers' = On \<or> (cellLineNumbers' = Inherit \<and> renderLineNumbers))
         in if currentLineNumberIsOn
            then w\<lparr>cellLineNumbers := (cellLineNumbers w)(c := Off)\<rparr>
            else w\<lparr>cellLineNumbers := (cellLineNumbers w)(c := On)\<rparr>))"

text \<open>
  \<^verbatim>\<open>ToggleActiveLineNumberAction.run(accessor, context?)\<close>; \<open>context\<close> is the cell of the
  invocation context when there is one.
\<close>

definition toggleActiveLineNumber_run :: "Workbench \<Rightarrow> nat option \<Rightarrow> Workbench" where
  "toggleActiveLineNumber_run w context =
    (case context of
       Some c \<Rightarrow> toggleCell w (Some c)
     | None \<Rightarrow>
        (case activeNotebookEditor w of
           None \<Rightarrow> w
         | Some editor \<Rightarrow>
            if \<not> hasModel editor then w else toggleCell w (getActiveCell editor)))"

text \<open>
  The relation the data model asks of an options object:
  \<^verbatim>\<open>v.folding === (v.lineNumbers === 'on')\<close>.
\<close>

definition foldingFollowsLineNumbers :: "obj \<Rightarrow> bool" where
  "foldingFollowsLineNumbers v =
     (getProp v ''folding'' = JBool (getProp v ''lineNumbers'' = JStr ''on''))"

subsection \<open>Example inputs\<close>

text \<open>
  Concrete collaborators for the examples further down, as abbreviations of the record
  values themselves. The notebook-wide setting is \<^verbatim>\<open>'off'\<close> in the first and has no value in the
  second; both customize \<^verbatim>\<open>editor.fontSize\<close>. Their editor options are the flat object
  \<^verbatim>\<open>{ fontSize: 14 }\<close>, a copy of which is an equal value: where an example has to name a
  \<^verbatim>\<open>deepClone\<close>, it is the function \<open>\<lambda>v. v\<close>.
\<close>

abbreviation depsSettingOff :: CellEditorOptionsDeps where
  "depsSettingOff \<equiv>
     \<lparr>notebookEditor = \<lparr>viewModel = None, hasModel = False, getActiveCell = None\<rparr>,
      notebookOptions =
        \<lparr>layoutConfiguration =
           \<lparr>editorOptionsCustomizations = Some [(''editor.fontSize'', JNum 20)]\<rparr>,
         computeEditorPadding = (\<lambda>m. JObj [(''top'', JNum 12), (''bottom'', JNum 4)])\<rparr>,
      configurationService =
        \<lparr>settings = (\<lambda>key. if key = ''notebook.lineNumbers'' then JStr ''off'' else JUndefined),
         editorSection = (\<lambda>l. [(''fontSize'', JNum 14)])\<rparr>,
      language = ''python''\<rparr>"

abbreviation depsSettingUnset :: CellEditorOptionsDeps where
  "depsSettingUnset \<equiv>
     \<lparr>notebookEditor = \<lparr>viewModel = None, hasModel = False, getActiveCell = None\<rparr>,
      notebookOptions =
        \<lparr>layoutConfiguration =
           \<lparr>editorOptionsCustomizations = Some [(''editor.fontSize'', JNum 20)]\<rparr>,
         computeEditorPadding = (\<lambda>m. JObj [(''top'', JNum 12), (''bottom'', JNum 4)])\<rparr>,
      configurationService =
        \<lparr>settings = (\<lambda>key. JUndefined),
         editorSection = (\<lambda>l. [(''fontSize'', JNum 14)])\<rparr>,
      language = ''python''\<rparr>"

abbreviation cachedOff :: CellEditorOptions where
  "cachedOff \<equiv>
     \<lparr>p_value =
        [(''fontSize'', JNum 14), (''lineNumbers'', JStr ''off''), (''folding'', JBool False)],
      p_lineNumbers = Inherit, onDidChange_fired = 0\<rparr>"

text \<open>
  Workbenches whose active notebook editor has a model: with active cell 3 and the setting
  \<^verbatim>\<open>'on'\<close>, without active cell, and with active cell 3 and the setting without value.
\<close>

abbreviation workbenchSettingOn :: Workbench where
  "workbenchSettingOn \<equiv>
     \<lparr>configuration =
        \<lparr>settings = (\<lambda>key. if key = ''notebook.lineNumbers'' then JStr ''on'' else JUndefined),
         editorSection = (\<lambda>l. [])\<rparr>,
      activeNotebookEditor =
        Some \<lparr>viewModel = None, hasModel = True, getActiveCell = Some 3\<rparr>,
      cellLineNumbers = (\<lambda>c. Inherit)\<rparr>"

abbreviation workbenchNoActiveCell :: Workbench where
  "workbenchNoActiveCell \<equiv>
     \<lparr>configuration =
        \<lparr>settings = (\<lambda>key. if key = ''notebook.lineNumbers'' then JStr ''on'' else JUndefined),
         editorSection = (\<lambda>l. [])\<rparr>,
      activeNotebookEditor =
        Some \<lparr>viewModel = None, hasModel = True, getActiveCell = None\<rparr>,
      cellLineNumbers = (\<lambda>c. Inherit)\<rparr>"

abbreviation workbenchSettingUnset :: Workbench where
  "workbenchSettingUnset \<equiv>
     \<lparr>configuration = \<lparr>settings = (\<lambda>key. JUndefined), editorSection = (\<lambda>l. [])\<rparr>,
      activeNotebookEditor =
        Some \<lparr>viewModel = None, hasModel = True, getActiveCell = Some 3\<rparr>,
      cellLineNumbers = (\<lambda>c. Inherit)\<rparr>"

section \<open>Properties\<close>

subsection \<open>Objects\<close>

lemma map_of_defineProp: "map_of (defineProp key v ob) = (map_of ob)(key \<mapsto> v)"
  by (induction ob) (auto simp: fun_eq_iff)

lemma map_of_setProp:
  "key \<noteq> ''__proto__'' \<Longrightarrow> map_of (setProp key v ob) = (map_of ob)(key \<mapsto> v)"
  by (simp add: setProp_def map_of_defineProp)

lemma getProp_setProp:
  "key \<noteq> ''__proto__'' \<Longrightarrow>
     getProp (setProp key v ob) k = (if k = key then v else getProp ob k)"
  by (simp add: getProp_def map_of_setProp)

lemma map_of_fold_copy:
  "map_of (fold (\<lambda>key acc. defineProp key (getProp src key) acc) ks target) k =
     (if k \<in> set ks then Some (getProp src k) else map_of target k)"
  by (induction ks arbitrary: target) (auto simp: map_of_defineProp)

lemma map_of_spread: "map_of (spread target src) = map_of target ++ map_of src"
proof
  fix k
  show "map_of (spread target src) k = (map_of target ++ map_of src) k"
  proof (cases "k \<in> fst ` set src")
    case True
    then obtain v where v: "map_of src k = Some v"
      by (cases "map_of src k") (auto simp: map_of_eq_None_iff)
    then have "getProp src k = v"
      by (simp add: getProp_def)
    with True v show ?thesis
      by (simp add: spread_def ownKeys_def map_of_fold_copy map_add_def)
  next
    case False
    then have "map_of src k = None"
      by (simp add: map_of_eq_None_iff)
    with False show ?thesis
      by (simp add: spread_def ownKeys_def map_of_fold_copy map_add_def)
  qed
qed

subsection \<open>Strings and the override loop\<close>

lemma indexOfFrom_range: "indexOfFrom s p i = - 1 \<or> int i \<le> indexOfFrom s p i"
  by (induction s p i rule: indexOfFrom.induct) auto

lemma indexOfFrom_start: "indexOfFrom s p i = int i \<longleftrightarrow> prefix p s"
proof (cases s)
  case Nil
  then show ?thesis by auto
next
  case (Cons c s')
  show ?thesis
  proof (cases "prefix p (c # s')")
    case True
    with Cons show ?thesis by simp
  next
    case False
    from indexOfFrom_range [of s' p "Suc i"] have "indexOfFrom s' p (Suc i) \<noteq> int i"
      by auto
    with False Cons show ?thesis by simp
  qed
qed

lemma indexOf_0_iff: "indexOf s p = 0 \<longleftrightarrow> prefix p s"
  using indexOfFrom_start [of s p 0] by (simp add: indexOf_def)

lemma editor_prefix_strip:
  "prefix ''editor.'' key \<Longrightarrow> (''editor.'' @ k = key) = (k = substr key 7)"
  by (auto simp: prefix_def substr_def)

text \<open>
  The loop over any list of keys: a key \<open>k\<close> other than \<^verbatim>\<open>__proto__\<close> ends up bound exactly
  when \<^verbatim>\<open>editor.k\<close> was visited, and \<^verbatim>\<open>__proto__\<close> is never bound.
\<close>

lemma map_of_fold_overrideStep:
  "map_of acc ''__proto__'' = None \<Longrightarrow>
   map_of (fold (overrideStep raw) ks acc) k =
     (if k \<noteq> ''__proto__'' \<and> ''editor.'' @ k \<in> set ks
      then Some (getProp raw (''editor.'' @ k)) else map_of acc k)"
proof (induction ks arbitrary: acc)
  case Nil
  show ?case by simp
next
  case (Cons key ks)
  show ?case
  proof (cases "prefix ''editor.'' key")
    case True
    note pre = editor_prefix_strip [OF True]
    show ?thesis
    proof (cases "substr key 7 = ''__proto__''")
      case proto: True
      with True Cons.prems have step: "overrideStep raw key acc = acc"
        by (simp add: overrideStep_def indexOf_0_iff setProp_def)
      from proto pre [of k] have "''editor.'' @ k = key \<longleftrightarrow> k = ''__proto__''"
        by simp
      with Cons.prems show ?thesis
        by (auto simp: step Cons.IH [OF Cons.prems])
    next
      case other: False
      with True have step:
        "overrideStep raw key acc = defineProp (substr key 7) (getProp raw key) acc"
        by (simp add: overrideStep_def indexOf_0_iff setProp_def)
      from other Cons.prems
      have keep: "map_of (defineProp (substr key 7) (getProp raw key) acc) ''__proto__'' = None"
        by (simp add: map_of_defineProp)
      show ?thesis
        using pre [of k] other
        by (auto simp: step Cons.IH [OF keep] map_of_defineProp)
    qed
  next
    case False
    then have step: "overrideStep raw key acc = acc"
      by (simp add: overrideStep_def indexOf_0_iff)
    from False have "''editor.'' @ k \<noteq> key"
      by (auto simp: prefix_def)
    then show ?thesis
      by (simp add: step Cons.IH [OF Cons.prems])
  qed
qed

lemma map_of_override_all:
  "map_of (fold (overrideStep raw) (ownKeys raw) []) k =
     (if k = ''__proto__'' then None else map_of raw (''editor.'' @ k))"
proof -
  define key where "key = ''editor.'' @ k"
  have fold_eq: "map_of (fold (overrideStep raw) (ownKeys raw) []) k =
      (if k \<noteq> ''__proto__'' \<and> key \<in> fst ` set raw then Some (getProp raw key) else None)"
    unfolding key_def by (simp add: map_of_fold_overrideStep ownKeys_def)
  show ?thesis
  proof (cases "map_of raw key")
    case None
    then have "key \<notin> fst ` set raw"
      by (simp add: map_of_eq_None_iff)
    with None fold_eq show ?thesis
      unfolding key_def by simp
  next
    case (Some v)
    then have "key \<in> fst ` set raw"
      by (metis map_of_eq_None_iff option.distinct(1))
    moreover from Some have "getProp raw key = v"
      by (simp add: getProp_def)
    ultimately show ?thesis
      using Some fold_eq unfolding key_def by simp
  qed
qed

lemma map_of_computeOverride:
  "map_of (computeOverride lc) k =
     (if k = ''__proto__'' then None else map_of (overrideRaw lc) (''editor.'' @ k))"
  unfolding computeOverride_def Let_def by (rule map_of_override_all)

subsection \<open>The computed options, layer by layer\<close>

lemma map_of_computeEditorOptions:
  "map_of (computeEditorOptions deepClone d) k =
     (map_of (deepClone (getValueOverride (configurationService d) (language d)))
      ++ map_of fixedEditorOptions
      ++ map_of
           [(''lineNumbers'',
             JStr (if getValue (configurationService d) ''notebook.lineNumbers'' = JStr ''on''
                   then ''on'' else ''off'')),
            (''folding'',
             JBool (getValue (configurationService d) ''notebook.lineNumbers'' = JStr ''on''))]
      ++ map_of (computeOverride (getLayoutConfiguration (notebookOptions d)))
      ++ map_of [(''padding'', paddingDefault)]
      ++ map_of
           [(''readOnly'',
             JBool (case viewModel (notebookEditor d) of
                      None \<Rightarrow> False
                    | Some vm \<Rightarrow> isReadOnly (options vm)))]) k"
  by (cases "getValue (configurationService d) ''notebook.lineNumbers'' = JStr ''on''")
    (simp_all add: computeEditorOptions_def Let_def map_of_defineProp map_of_spread)

lemma getProp_computed_lineNumbers:
  assumes "map_of (computeOverride (getLayoutConfiguration (notebookOptions d))) ''lineNumbers'' = None"
  shows "getProp (computeEditorOptions deepClone d) ''lineNumbers'' =
     JStr (if getValue (configurationService d) ''notebook.lineNumbers'' = JStr ''on''
           then ''on'' else ''off'')"
  using assms by (simp add: getProp_def map_of_computeEditorOptions map_add_def)

lemma getProp_computed_folding:
  assumes "map_of (computeOverride (getLayoutConfiguration (notebookOptions d))) ''folding'' = None"
  shows "getProp (computeEditorOptions deepClone d) ''folding'' =
     JBool (getValue (configurationService d) ''notebook.lineNumbers'' = JStr ''on'')"
  using assms by (simp add: getProp_def map_of_computeEditorOptions map_add_def)

lemma computed_follows:
  assumes "map_of (computeOverride (getLayoutConfiguration (notebookOptions d))) ''lineNumbers'' = None"
    and "map_of (computeOverride (getLayoutConfiguration (notebookOptions d))) ''folding'' = None"
  shows "foldingFollowsLineNumbers (computeEditorOptions deepClone d)"
  using assms
  by (simp add: foldingFollowsLineNumbers_def getProp_computed_lineNumbers getProp_computed_folding)

text \<open>
  The second testable example of the specification: the notebook-wide setting \<^verbatim>\<open>off\<close> and the
  layout customization \<^verbatim>\<open>{ "editor.fontSize": 20 }\<close> give \<^verbatim>\<open>fontSize === 20\<close> and
  \<^verbatim>\<open>lineNumbers === 'off'\<close>.
\<close>

lemma recompute_example:
  "getProp (computeEditorOptions deepClone depsSettingOff) ''fontSize'' = JNum 20 \<and>
   getProp (computeEditorOptions deepClone depsSettingOff) ''lineNumbers'' = JStr ''off''"
  by (simp add: getProp_def map_of_computeEditorOptions map_of_computeOverride overrideRaw_def
        getLayoutConfiguration_def getValue_def map_add_def)

subsection \<open>setLineNumbers, step by step\<close>

lemma setLineNumbers_value:
  "p_value (setLineNumbers d this mode) =
     setProp ''folding''
       (JBool ((case mode of
                  Inherit \<Rightarrow> getValue (configurationService d) ''notebook.lineNumbers'' = JStr ''on''
                | On \<Rightarrow> True
                | Off \<Rightarrow> False)))
       (setProp ''lineNumbers''
          (JStr (case mode of
                   Inherit \<Rightarrow>
                     if getValue (configurationService d) ''notebook.lineNumbers'' = JStr ''on''
                     then ''on'' else ''off''
                 | On \<Rightarrow> ''on''
                 | Off \<Rightarrow> ''off''))
          (p_value this))"
  by (cases mode) (simp_all add: setLineNumbers_def Let_def)

lemma setLineNumbers_fired:
  "onDidChange_fired (setLineNumbers d this mode) = Suc (onDidChange_fired this)"
  by (simp add: setLineNumbers_def Let_def)

lemma setLineNumbers_mode: "p_lineNumbers (setLineNumbers d this mode) = mode"
  by (simp add: setLineNumbers_def Let_def)

lemma setLineNumbers_follows:
  "foldingFollowsLineNumbers (p_value (setLineNumbers d this mode))"
  by (cases mode) (simp_all add: foldingFollowsLineNumbers_def setLineNumbers_value getProp_setProp)

section \<open>The claims\<close>

text \<open>
  C1. After any recomputation of the cached options and after any \<^verbatim>\<open>setLineNumbers\<close> call
  the cached options satisfy \<^verbatim>\<open>folding === (lineNumbers === 'on')\<close>.

  As stated this fails for recomputation: the layout customizations are merged after the
  derived pair, so a customization \<^verbatim>\<open>editor.lineNumbers\<close> or \<^verbatim>\<open>editor.folding\<close> replaces one
  half of the pair. Below, the notebook-wide setting is \<^verbatim>\<open>off\<close> and the customization is
  \<^verbatim>\<open>{ "editor.lineNumbers": "on" }\<close>: the recomputed value has \<^verbatim>\<open>lineNumbers\<close> \<^verbatim>\<open>'on'\<close> and
  \<^verbatim>\<open>folding\<close> \<^verbatim>\<open>false\<close>. The editor options are the empty object and \<^verbatim>\<open>deepClone\<close> returns it;
  the copy plays no part, since both keys are written again by the layers after it.
\<close>

theorem recompute_breaks_folding_invariant:
  "\<not> foldingFollowsLineNumbers
       (p_value
          (recomputeOptions (\<lambda>v. v)
             \<lparr>notebookEditor = \<lparr>viewModel = None, hasModel = False, getActiveCell = None\<rparr>,
              notebookOptions =
                \<lparr>layoutConfiguration =
                   \<lparr>editorOptionsCustomizations = Some [(''editor.lineNumbers'', JStr ''on'')]\<rparr>,
                 computeEditorPadding = (\<lambda>m. JObj [(''top'', JNum 12), (''bottom'', JNum 12)])\<rparr>,
              configurationService =
                \<lparr>settings =
                   (\<lambda>key. if key = ''notebook.lineNumbers'' then JStr ''off'' else JUndefined),
                 editorSection = (\<lambda>l. [])\<rparr>,
              language = ''python''\<rparr>
             \<lparr>p_value = [], p_lineNumbers = Inherit, onDidChange_fired = 0\<rparr>))"
  by (simp add: foldingFollowsLineNumbers_def recomputeOptions_def getProp_def
        map_of_computeEditorOptions map_of_computeOverride overrideRaw_def
        getLayoutConfiguration_def getValue_def map_add_def)

text \<open>
  C1, amended. After any \<^verbatim>\<open>setLineNumbers\<close> call, and after the construction or any
  recomputation in which the layout customizations have neither the key
  \<^verbatim>\<open>editor.lineNumbers\<close> nor the key \<^verbatim>\<open>editor.folding\<close>, the cached options satisfy
  \<^verbatim>\<open>folding === (lineNumbers === 'on')\<close>.
\<close>

theorem folding_follows_lineNumbers:
  "foldingFollowsLineNumbers (p_value (setLineNumbers d this mode)) \<and>
   (map_of (overrideRaw (getLayoutConfiguration (notebookOptions d))) ''editor.lineNumbers'' = None \<and>
    map_of (overrideRaw (getLayoutConfiguration (notebookOptions d))) ''editor.folding'' = None \<longrightarrow>
      foldingFollowsLineNumbers (p_value (newCellEditorOptions deepClone d)) \<and>
      foldingFollowsLineNumbers (p_value (recomputeOptions deepClone d this)))"
proof -
  have "foldingFollowsLineNumbers (computeEditorOptions deepClone d)"
    if "map_of (overrideRaw (getLayoutConfiguration (notebookOptions d))) ''editor.lineNumbers'' = None"
      and "map_of (overrideRaw (getLayoutConfiguration (notebookOptions d))) ''editor.folding'' = None"
    using that by (intro computed_follows) (simp_all add: map_of_computeOverride)
  then show ?thesis
    by (simp add: setLineNumbers_follows newCellEditorOptions_def recomputeOptions_def)
qed

theorem folding_follows_lineNumbers_witness:
  "map_of (overrideRaw (getLayoutConfiguration (notebookOptions depsSettingOff))) ''editor.lineNumbers'' = None \<and>
   map_of (overrideRaw (getLayoutConfiguration (notebookOptions depsSettingOff))) ''editor.folding'' = None \<and>
   foldingFollowsLineNumbers (p_value (setLineNumbers depsSettingOff cachedOff On)) \<and>
   foldingFollowsLineNumbers (p_value (newCellEditorOptions (\<lambda>v. v) depsSettingOff)) \<and>
   foldingFollowsLineNumbers (p_value (recomputeOptions (\<lambda>v. v) depsSettingOff cachedOff))"
  using folding_follows_lineNumbers
    [where mode = On and deepClone = "\<lambda>v. v" and d = depsSettingOff and this = cachedOff]
  by (simp add: overrideRaw_def getLayoutConfiguration_def)

text \<open>
  C2. The recomputation merges six layers in this order, a later layer winning on a key both
  have: the language-scoped editor options, the fixed options, the derived pair
  \<^verbatim>\<open>{lineNumbers, folding: lineNumbers === 'on'}\<close>, the override mapping of the layout
  customizations, \<^verbatim>\<open>{padding: {top: 12, bottom: 12}}\<close>, and \<^verbatim>\<open>{readOnly}\<close> with the view
  model's read-only flag, \<^verbatim>\<open>false\<close> when there is no view model.

  The first layer is the variable \<^verbatim>\<open>editorOptions\<close> of the source: the language-scoped editor
  options as \<^verbatim>\<open>deepClone\<close> hands them over. The equation holds for every \<^verbatim>\<open>deepClone\<close>.
\<close>

theorem computeEditorOptions_merge_order:
  "map_of (computeEditorOptions deepClone d) =
     map_of (deepClone (getValueOverride (configurationService d) (language d)))
     ++ map_of fixedEditorOptions
     ++ map_of
          [(''lineNumbers'',
            JStr (if getValue (configurationService d) ''notebook.lineNumbers'' = JStr ''on''
                  then ''on'' else ''off'')),
           (''folding'',
            JBool ((if getValue (configurationService d) ''notebook.lineNumbers'' = JStr ''on''
                    then ''on'' else ''off'') = ''on''))]
     ++ map_of (computeOverride (getLayoutConfiguration (notebookOptions d)))
     ++ map_of [(''padding'', JObj [(''top'', JNum 12), (''bottom'', JNum 12)])]
     ++ map_of
          [(''readOnly'',
            JBool (case viewModel (notebookEditor d) of
                     None \<Rightarrow> False
                   | Some vm \<Rightarrow> isReadOnly (options vm)))]"
  by (rule ext) (simp add: map_of_computeEditorOptions paddingDefault_def)

text \<open>
  C3. The per-cell toggle sets the target cell's mode to \<^verbatim>\<open>off\<close> when the cell's mode is
  \<^verbatim>\<open>on\<close>, or is \<^verbatim>\<open>inherit\<close> while the notebook-wide setting is \<^verbatim>\<open>on\<close>, and to \<^verbatim>\<open>on\<close> otherwise;
  it never writes \<^verbatim>\<open>inherit\<close>. The target is the cell of the invocation context, or the active
  cell of the active notebook editor.
\<close>

theorem toggleActiveLineNumber_truth_table:
  assumes "ctx = Some c \<or>
           (ctx = None \<and>
            (\<exists>editor. activeNotebookEditor w = Some editor \<and> hasModel editor \<and>
               getActiveCell editor = Some c))"
  shows "cellLineNumbers (toggleActiveLineNumber_run w ctx) c =
           (if cellLineNumbers w c = On \<or>
               (cellLineNumbers w c = Inherit \<and>
                getValue (configuration w) ''notebook.lineNumbers'' = JStr ''on'')
            then Off else On)
         \<and> cellLineNumbers (toggleActiveLineNumber_run w ctx) c \<noteq> Inherit
         \<and> (cellLineNumbers (toggleActiveLineNumber_run w ctx) c' = Inherit \<longrightarrow>
              cellLineNumbers w c' = Inherit)"
  using assms
  by (auto simp: toggleActiveLineNumber_run_def toggleCell_def Let_def split: if_splits)

theorem toggleActiveLineNumber_truth_table_witness:
  "(\<exists>editor. activeNotebookEditor workbenchSettingOn = Some editor \<and> hasModel editor \<and> getActiveCell editor = Some 3) \<and>
   cellLineNumbers (toggleActiveLineNumber_run workbenchSettingOn None) 3 = Off \<and>
   cellLineNumbers (toggleActiveLineNumber_run workbenchSettingOn None) 4 = Inherit"
  using toggleActiveLineNumber_truth_table [where ctx = None and c = 3 and c' = 4
    and w = workbenchSettingOn]
  by (simp add: getValue_def toggleActiveLineNumber_run_def toggleCell_def)

text \<open>
  C4. \<^verbatim>\<open>setLineNumbers(mode)\<close> writes \<^verbatim>\<open>lineNumbers\<close> and \<^verbatim>\<open>folding\<close> into the cached value, from
  the notebook-wide setting when the mode is \<^verbatim>\<open>inherit\<close> and from the mode itself otherwise,
  and fires the change notification exactly once whatever the value was before. After
  \<^verbatim>\<open>setLineNumbers('on')\<close> and then \<^verbatim>\<open>setLineNumbers('inherit')\<close>, with the notebook-wide
  setting \<^verbatim>\<open>off\<close>, \<^verbatim>\<open>lineNumbers\<close> is \<^verbatim>\<open>'off'\<close>.
\<close>

theorem setLineNumbers_writes_and_fires:
  "getProp (p_value (setLineNumbers d this mode)) ''lineNumbers'' =
     JStr (case mode of
             Inherit \<Rightarrow>
               if getValue (configurationService d) ''notebook.lineNumbers'' = JStr ''on''
               then ''on'' else ''off''
           | On \<Rightarrow> ''on''
           | Off \<Rightarrow> ''off'')
   \<and> getProp (p_value (setLineNumbers d this mode)) ''folding'' =
     JBool (case mode of
              Inherit \<Rightarrow> getValue (configurationService d) ''notebook.lineNumbers'' = JStr ''on''
            | On \<Rightarrow> True
            | Off \<Rightarrow> False)
   \<and> p_lineNumbers (setLineNumbers d this mode) = mode
   \<and> onDidChange_fired (setLineNumbers d this mode) = onDidChange_fired this + 1
   \<and> (getValue (configurationService d) ''notebook.lineNumbers'' = JStr ''off'' \<longrightarrow>
        getProp (p_value (setLineNumbers d (setLineNumbers d this On) Inherit)) ''lineNumbers'' =
          JStr ''off'')"
  by (simp add: setLineNumbers_value setLineNumbers_fired setLineNumbers_mode getProp_setProp)

theorem setLineNumbers_writes_and_fires_witness:
  "getValue (configurationService depsSettingOff) ''notebook.lineNumbers'' = JStr ''off'' \<and>
   getProp (p_value (setLineNumbers depsSettingOff
     (setLineNumbers depsSettingOff cachedOff On) Inherit)) ''lineNumbers'' = JStr ''off'' \<and>
   onDidChange_fired (setLineNumbers depsSettingOff cachedOff Off) = 1"
  using setLineNumbers_writes_and_fires [where mode = Off and d = depsSettingOff and this = cachedOff]
  by (simp add: getValue_def)

text \<open>
  C5. \<^verbatim>\<open>getValue()\<close> without metadata returns the cached value with \<^verbatim>\<open>padding\<close> replaced by
  \<^verbatim>\<open>{top: 12, bottom: 12}\<close>; \<^verbatim>\<open>getValue(metadata)\<close> returns it with \<^verbatim>\<open>padding\<close> replaced by the
  result of the notebook options' padding callback. Every other key is as in the cached
  value, and the read leaves the cached value as it was.
\<close>

theorem getValue_replaces_padding_only:
  "map_of (fst (getValue_options d this None)) =
     (map_of (p_value this))(''padding'' \<mapsto> JObj [(''top'', JNum 12), (''bottom'', JNum 12)])
   \<and> map_of (fst (getValue_options d this (Some m))) =
     (map_of (p_value this))(''padding'' \<mapsto> computeEditorPadding (notebookOptions d) m)
   \<and> snd (getValue_options d this internalMetadata) = this"
  by (simp add: getValue_options_def map_of_spread paddingDefault_def)

text \<open>
  C6. Invoked without a cell in the context, and with no active notebook editor, or one
  without a model, or one without an active cell, the per-cell toggle changes no cell's
  \<^verbatim>\<open>lineNumbers\<close>, writes no configuration, and returns normally: the state after it is the
  state before it.
\<close>

theorem toggleActiveLineNumber_no_target:
  assumes "ctx = None"
    and "case activeNotebookEditor w of
           None \<Rightarrow> True
         | Some editor \<Rightarrow> \<not> hasModel editor \<or> getActiveCell editor = None"
  shows "toggleActiveLineNumber_run w ctx = w"
  using assms
  by (auto simp: toggleActiveLineNumber_run_def toggleCell_def split: option.splits)

theorem toggleActiveLineNumber_no_target_witness:
  "(case activeNotebookEditor workbenchNoActiveCell of
      None \<Rightarrow> True
    | Some editor \<Rightarrow> \<not> hasModel editor \<or> getActiveCell editor = None) \<and>
   toggleActiveLineNumber_run workbenchNoActiveCell None = workbenchNoActiveCell"
proof -
  have target: "case activeNotebookEditor workbenchNoActiveCell of
      None \<Rightarrow> True
    | Some editor \<Rightarrow> \<not> hasModel editor \<or> getActiveCell editor = None"
    by simp
  from target toggleActiveLineNumber_no_target [OF refl target] show ?thesis
    by (rule conjI)
qed

text \<open>
  C7. The notebook-wide toggle writes \<^verbatim>\<open>'off'\<close> to \<^verbatim>\<open>notebook.lineNumbers\<close> when the current
  value is \<^verbatim>\<open>'on'\<close> and \<^verbatim>\<open>'on'\<close> otherwise, and changes nothing else: no other setting, not the
  editor options, no cell, not the active editor.
\<close>

theorem toggleLineNumbers_flips_setting:
  "toggleLineNumbers_run w =
     w\<lparr>configuration :=
         updateValue (configuration w) ''notebook.lineNumbers''
           (JStr (if getValue (configuration w) ''notebook.lineNumbers'' = JStr ''on''
                  then ''off'' else ''on''))\<rparr>
   \<and> cellLineNumbers (toggleLineNumbers_run w) = cellLineNumbers w
   \<and> activeNotebookEditor (toggleLineNumbers_run w) = activeNotebookEditor w
   \<and> editorSection (configuration (toggleLineNumbers_run w)) = editorSection (configuration w)
   \<and> settings (configuration (toggleLineNumbers_run w)) =
       (settings (configuration w))
         (''notebook.lineNumbers'' :=
            JStr (if settings (configuration w) ''notebook.lineNumbers'' = JStr ''on''
                  then ''off'' else ''on''))"
  by (simp add: toggleLineNumbers_run_def Let_def updateValue_def getValue_def)

text \<open>
  C8. The override mapping built during recomputation has exactly the entries of the layout
  customizations whose key starts with \<^verbatim>\<open>editor.\<close>, with the prefix stripped and the value
  unchanged.

  The loop builds the mapping by assignment, \<^verbatim>\<open>editorOptionsOverride[key.substr(7)] = ...\<close>.
  For the customization key \<^verbatim>\<open>editor.__proto__\<close> the assignment goes to the accessor that every
  plain object inherits, and no entry is made: the customizations below have two prefixed
  entries, the mapping built from them has one.
\<close>

theorem computeOverride_drops_proto_entry:
  "computeOverride
     \<lparr>editorOptionsCustomizations =
        Some [(''editor.__proto__'', JNum 1), (''editor.fontSize'', JNum 20)]\<rparr>
   = [(''fontSize'', JNum 20)]"
  by (simp add: computeOverride_def overrideRaw_def ownKeys_def overrideStep_def indexOf_def
        substr_def setProp_def getProp_def)

text \<open>
  C9. \<^verbatim>\<open>setLineNumbers\<close> patches the cached value in place and changes only its \<^verbatim>\<open>lineNumbers\<close>
  and \<^verbatim>\<open>folding\<close> fields: every other field is after the call what it was before.
\<close>

theorem setLineNumbers_frame:
  assumes "key \<noteq> ''lineNumbers''" and "key \<noteq> ''folding''"
  shows "map_of (p_value (setLineNumbers d this mode)) key = map_of (p_value this) key"
  using assms by (simp add: setLineNumbers_value map_of_setProp)

theorem setLineNumbers_frame_witness:
  "''fontSize'' \<noteq> ''lineNumbers'' \<and> ''fontSize'' \<noteq> ''folding'' \<and>
   map_of (p_value (setLineNumbers depsSettingOff cachedOff On)) ''fontSize'' = Some (JNum 14)"
  using setLineNumbers_frame [where key = "''fontSize''" and mode = On and d = depsSettingOff and this = cachedOff]
  by simp

text \<open>
  C10. Each of the four reads of \<^verbatim>\<open>notebook.lineNumbers\<close> (recomputation,
  \<^verbatim>\<open>setLineNumbers('inherit')\<close>, the notebook-wide toggle, the per-cell toggle) treats a value
  that is not the string \<^verbatim>\<open>'on'\<close>, be it absent or invalid, as \<^verbatim>\<open>'off'\<close>: the outcome is the one
  the same call has with the setting replaced by \<^verbatim>\<open>'off'\<close>.
\<close>

theorem lineNumbers_setting_not_on_reads_as_off:
  assumes "getValue (configurationService d) ''notebook.lineNumbers'' \<noteq> JStr ''on''"
    and "getValue (configuration w) ''notebook.lineNumbers'' \<noteq> JStr ''on''"
  shows "computeEditorOptions deepClone d =
           computeEditorOptions deepClone
             (d\<lparr>configurationService :=
                  updateValue (configurationService d) ''notebook.lineNumbers'' (JStr ''off'')\<rparr>)
         \<and> p_value (setLineNumbers d this Inherit) =
           p_value
             (setLineNumbers
                (d\<lparr>configurationService :=
                     updateValue (configurationService d) ''notebook.lineNumbers'' (JStr ''off'')\<rparr>)
                this Inherit)
         \<and> toggleLineNumbers_run w =
           toggleLineNumbers_run
             (w\<lparr>configuration :=
                  updateValue (configuration w) ''notebook.lineNumbers'' (JStr ''off'')\<rparr>)
         \<and> cellLineNumbers (toggleActiveLineNumber_run w ctx) =
           cellLineNumbers
             (toggleActiveLineNumber_run
                (w\<lparr>configuration :=
                     updateValue (configuration w) ''notebook.lineNumbers'' (JStr ''off'')\<rparr>)
                ctx)"
proof -
  let ?d = "d\<lparr>configurationService :=
                updateValue (configurationService d) ''notebook.lineNumbers'' (JStr ''off'')\<rparr>"
  let ?w = "w\<lparr>configuration :=
                updateValue (configuration w) ''notebook.lineNumbers'' (JStr ''off'')\<rparr>"
  have "computeEditorOptions deepClone d = computeEditorOptions deepClone ?d"
    using assms(1)
    by (simp add: computeEditorOptions_def Let_def getValue_def updateValue_def
          getValueOverride_def)
  moreover have "p_value (setLineNumbers d this Inherit) = p_value (setLineNumbers ?d this Inherit)"
    using assms(1) by (simp add: setLineNumbers_def Let_def getValue_def updateValue_def)
  moreover have "toggleLineNumbers_run w = toggleLineNumbers_run ?w"
    using assms(2) by (simp add: toggleLineNumbers_run_def Let_def getValue_def updateValue_def)
  moreover have "cellLineNumbers (toggleActiveLineNumber_run w ctx) =
      cellLineNumbers (toggleActiveLineNumber_run ?w ctx)"
    using assms(2)
    by (simp add: toggleActiveLineNumber_run_def toggleCell_def Let_def getValue_def
          updateValue_def split: option.splits)
  ultimately show ?thesis by simp
qed

theorem lineNumbers_setting_not_on_reads_as_off_witness:
  "getValue (configurationService depsSettingUnset) ''notebook.lineNumbers'' \<noteq> JStr ''on'' \<and>
   getValue (configuration workbenchSettingUnset) ''notebook.lineNumbers'' \<noteq> JStr ''on'' \<and>
   getProp (computeEditorOptions (\<lambda>v. v) depsSettingUnset) ''lineNumbers'' = JStr ''off'' \<and>
   getProp (p_value (setLineNumbers depsSettingUnset cachedOff Inherit)) ''lineNumbers'' = JStr ''off'' \<and>
   getValue (configuration (toggleLineNumbers_run workbenchSettingUnset)) ''notebook.lineNumbers'' = JStr ''on'' \<and>
   cellLineNumbers (toggleActiveLineNumber_run workbenchSettingUnset None) 3 = On"
  using lineNumbers_setting_not_on_reads_as_off
    [where ctx = None and deepClone = "\<lambda>v. v" and d = depsSettingUnset and this = cachedOff
       and w = workbenchSettingUnset]
  by (simp add: getValue_def updateValue_def getProp_def map_of_computeEditorOptions
        map_of_computeOverride overrideRaw_def getLayoutConfiguration_def map_add_def
        setLineNumbers_value map_of_setProp
        toggleLineNumbers_run_def toggleActiveLineNumber_run_def toggleCell_def)

end
